theory Spec2Isabelle
  imports Main "HOL-Library.AList" "HOL-Library.Multiset"
begin

section \<open>Python values\<close>

text \<open>
  The configuration editor of \<^verbatim>\<open>tardis/gui.py\<close> works on the nested dictionaries that
  a YAML document parses to, and on a hard-coded template dictionary. The values the code
  meets are \<^verbatim>\<open>None\<close>, booleans, integers, strings, lists and dictionaries; it never does
  arithmetic on them. A dictionary is an association list with the keys in iteration
  order; a key is a hashable scalar (\<^verbatim>\<open>True\<close> and \<^verbatim>\<open>1\<close> are the same key in Python).
\<close>

datatype pykey = KNone | KInt int | KStr string

datatype pyval =
    PNone
  | PBool bool
  | PInt int
  | PStr string
  | PList "pyval list"
  | PDict "(pykey \<times> pyval) list"

type_synonym pydict = "(pykey \<times> pyval) list"

datatype error = IOError | TypeError | IndexError | KeyError | AttributeError

text \<open>Hashing a value for use as a dictionary key: lists and dictionaries are unhashable.\<close>

fun to_key :: "pyval \<Rightarrow> error + pykey" where
  "to_key PNone = Inr KNone"
| "to_key (PBool b) = Inr (KInt (if b then 1 else 0))"
| "to_key (PInt i) = Inr (KInt i)"
| "to_key (PStr s) = Inr (KStr s)"
| "to_key (PList xs) = Inl TypeError"
| "to_key (PDict d) = Inl TypeError"

fun of_key :: "pykey \<Rightarrow> pyval" where
  "of_key KNone = PNone"
| "of_key (KInt i) = PInt i"
| "of_key (KStr s) = PStr s"

text \<open>\<^verbatim>\<open>xs[i]\<close> on a sequence: a negative index counts from the end, \<open>None\<close> stands for
  the \<^verbatim>\<open>IndexError\<close>.\<close>

definition py_index :: "'a list \<Rightarrow> int \<Rightarrow> 'a option" where
  "py_index xs i =
     (let n = int (length xs); j = (if i < 0 then n + i else i)
      in if 0 \<le> j \<and> j < n then Some (xs ! nat j) else None)"

section \<open>Strings and item access\<close>

text \<open>
  \<^verbatim>\<open>s.split(sep)\<close> for a non-empty separator: the pieces between the non-overlapping
  occurrences of \<open>sep\<close>, found from the left. The second argument of \<open>split_from\<close>
  is the current piece, reversed.
\<close>

fun split_from :: "string \<Rightarrow> string \<Rightarrow> string \<Rightarrow> string list" where
  "split_from sep cur [] = [rev cur]"
| "split_from sep cur (c # cs) =
     (if sep \<noteq> [] \<and> take (length sep) (c # cs) = sep
      then rev cur # split_from sep [] (drop (length sep) (c # cs))
      else split_from sep (c # cur) cs)"

definition py_split :: "string \<Rightarrow> string \<Rightarrow> string list" where
  "py_split s sep = split_from sep [] s"

text \<open>The separator between an option's name and the names of the keys it activates.\<close>

definition SEP :: string where
  "SEP = ''|_:_|''"

text \<open>
  \<^verbatim>\<open>for key in x\<close>: a dictionary yields its keys, a list its elements, a string its
  characters; anything else is not iterable.
\<close>

definition py_iter :: "pyval \<Rightarrow> error + pyval list" where
  "py_iter x =
     (case x of
        PDict d \<Rightarrow> Inr (map (of_key \<circ> fst) d)
      | PList xs \<Rightarrow> Inr xs
      | PStr s \<Rightarrow> Inr (map (\<lambda>c. PStr [c]) s)
      | _ \<Rightarrow> Inl TypeError)"

definition as_index :: "pyval \<Rightarrow> int option" where
  "as_index k =
     (case k of PInt i \<Rightarrow> Some i | PBool b \<Rightarrow> Some (if b then 1 else 0) | _ \<Rightarrow> None)"

text \<open>\<^verbatim>\<open>x[k]\<close>.\<close>

definition py_getitem :: "pyval \<Rightarrow> pyval \<Rightarrow> error + pyval" where
  "py_getitem x k =
     (case x of
        PDict d \<Rightarrow>
          (case to_key k of
             Inl e \<Rightarrow> Inl e
           | Inr kk \<Rightarrow> (case map_of d kk of None \<Rightarrow> Inl KeyError | Some v \<Rightarrow> Inr v))
      | PList xs \<Rightarrow>
          (case as_index k of
             None \<Rightarrow> Inl TypeError
           | Some i \<Rightarrow> (case py_index xs i of None \<Rightarrow> Inl IndexError | Some v \<Rightarrow> Inr v))
      | PStr s \<Rightarrow>
          (case as_index k of
             None \<Rightarrow> Inl TypeError
           | Some i \<Rightarrow>
              (case py_index s i of None \<Rightarrow> Inl IndexError | Some c \<Rightarrow> Inr (PStr [c])))
      | _ \<Rightarrow> Inl TypeError)"

text \<open>
  The loop \<^verbatim>\<open>for key in dict1\<close> reads \<^verbatim>\<open>dict1[key]\<close> in its body; \<^verbatim>\<open>dict1\<close> is not
  changed by the loop, so each key is paired with what \<^verbatim>\<open>dict1[key]\<close> gives (a value,
  or the exception it raises once the body reaches it).
\<close>

definition py_items :: "pyval \<Rightarrow> error + (pyval \<times> (error + pyval)) list" where
  "py_items x =
     (case py_iter x of
        Inl e \<Rightarrow> Inl e
      | Inr ks \<Rightarrow> Inr (map (\<lambda>k. (k, py_getitem x k)) ks))"

section \<open>Merging the user's configuration into the template\<close>

text \<open>
  \<^verbatim>\<open>options[i] = options[i].split('|_:_|')[0]\<close> for every element of the option list;
  an element without a \<^verbatim>\<open>split\<close> method raises \<^verbatim>\<open>AttributeError\<close>.
\<close>

fun option_names :: "pyval list \<Rightarrow> error + string list" where
  "option_names [] = Inr []"
| "option_names (PStr s # os) =
     (case option_names os of Inl e \<Rightarrow> Inl e | Inr ns \<Rightarrow> Inr (hd (py_split s SEP) # ns))"
| "option_names (_ # os) = Inl AttributeError"

text \<open>\<^verbatim>\<open>xs.index(x)\<close>, with \<open>None\<close> when \<^verbatim>\<open>x in xs\<close> is false.\<close>

fun list_index :: "'a list \<Rightarrow> 'a \<Rightarrow> nat option" where
  "list_index [] x = None"
| "list_index (y # ys) x = (if y = x then Some 0 else map_option Suc (list_index ys x))"

text \<open>The option names are strings, so only a string can be among them.\<close>

definition find_option :: "pyval \<Rightarrow> string list \<Rightarrow> nat option" where
  "find_option sel names = (case sel of PStr s \<Rightarrow> list_index names s | _ \<Rightarrow> None)"

text \<open>
  \<^verbatim>\<open>temp = l[0]; l[0] = l[i]; l[i] = temp\<close>
\<close>

definition swap_first :: "'a list \<Rightarrow> nat \<Rightarrow> 'a list" where
  "swap_first xs i = (xs[0 := xs ! i])[i := xs ! 0]"

text \<open>
  \<^verbatim>\<open>ConfigEditor.matchDicts(dict1, dict2)\<close> changes \<^verbatim>\<open>dict2\<close> in place; the model
  returns the changed dictionary, or the exception. \<open>match_items\<close> is the loop over the
  keys of \<^verbatim>\<open>dict1\<close>. The branches are the source's: the template value is a dictionary
  (recursion), a list whose second element is a list (an option list: validate and swap),
  a list whose second element is not a list (nothing is done), anything else (the value is
  replaced by the user's), and a key the template does not have (appended as
  \<^verbatim>\<open>[False, value]\<close>).
\<close>

fun max_item :: "(pyval \<times> (error + pyval)) list \<Rightarrow> nat" where
  "max_item [] = 0"
| "max_item ((k, Inl e) # its) = max_item its"
| "max_item ((k, Inr v) # its) = max (Suc (size v)) (max_item its)"

function matchDicts :: "pyval \<Rightarrow> pydict \<Rightarrow> error + pydict"
  and match_items :: "(pyval \<times> (error + pyval)) list \<Rightarrow> pydict \<Rightarrow> error + pydict"
where
  "matchDicts dict1 dict2 =
     (case py_items dict1 of Inl e \<Rightarrow> Inl e | Inr its \<Rightarrow> match_items its dict2)"
| "match_items [] dict2 = Inr dict2"
| "match_items ((key, item) # its) dict2 =
     (case to_key key of
        Inl e \<Rightarrow> Inl e
      | Inr k \<Rightarrow>
         (case map_of dict2 k of
            Some (PDict sub) \<Rightarrow>
              (case item of
                 Inl e \<Rightarrow> Inl e
               | Inr v \<Rightarrow>
                  (case matchDicts v sub of
                     Inl e \<Rightarrow> Inl e
                   | Inr sub' \<Rightarrow> match_items its (AList.update k (PDict sub') dict2)))
          | Some (PList entry) \<Rightarrow>
              (case py_index entry 1 of
                 None \<Rightarrow> Inl IndexError
               | Some (PList opts) \<Rightarrow>
                  (case option_names opts of
                     Inl e \<Rightarrow> Inl e
                   | Inr options \<Rightarrow>
                      (case item of
                         Inl e \<Rightarrow> Inl e
                       | Inr optionselected \<Rightarrow>
                          (case find_option optionselected options of
                             None \<Rightarrow> Inl IOError
                           | Some indexofselected \<Rightarrow>
                               match_items its
                                 (AList.update k
                                    (PList (entry[1 := PList (swap_first opts indexofselected)]))
                                    dict2))))
               | Some _ \<Rightarrow> match_items its dict2)
          | Some _ \<Rightarrow>
              (case item of
                 Inl e \<Rightarrow> Inl e
               | Inr v \<Rightarrow> match_items its (AList.update k v dict2))
          | None \<Rightarrow>
              (case item of
                 Inl e \<Rightarrow> Inl e
               | Inr v \<Rightarrow> match_items its (AList.update k (PList [PBool False, v]) dict2))))"
  by pat_completeness simp_all

text \<open>
  Termination: the recursive call is on a value read out of \<^verbatim>\<open>dict1\<close> with one of its
  own keys, which is a proper part of it.
\<close>

lemma size_nth_less: "i < length xs \<Longrightarrow> size (xs ! i) < Suc (size_list size xs)"
proof (induction xs arbitrary: i)
  case Nil
  then show ?case by simp
next
  case (Cons x xs)
  show ?case
  proof (cases i)
    case 0
    then show ?thesis by simp
  next
    case (Suc j)
    with Cons.prems have "j < length xs" by simp
    from Cons.IH [OF this] Suc show ?thesis by simp
  qed
qed

lemma size_map_of_less:
  "map_of d k = Some v \<Longrightarrow> size v < Suc (size_list (size_prod (\<lambda>_. 0) size) d)"
proof (induction d)
  case Nil
  then show ?case by simp
next
  case (Cons p d)
  show ?case
  proof (cases "fst p = k")
    case True
    with Cons.prems have "snd p = v" by simp
    then show ?thesis by (cases p) simp
  next
    case False
    with Cons.prems have "map_of d k = Some v" by simp
    from Cons.IH [OF this] show ?thesis by simp
  qed
qed

lemma py_index_mem: "py_index xs i = Some v \<Longrightarrow> v \<in> set xs"
proof -
  assume a: "py_index xs i = Some v"
  define j where "j = (if i < 0 then int (length xs) + i else i)"
  from a have "0 \<le> j \<and> j < int (length xs)" and "v = xs ! nat j"
    by (simp_all add: py_index_def Let_def j_def split: if_splits)
  then have "nat j < length xs" by linarith
  with \<open>v = xs ! nat j\<close> show ?thesis by simp
qed

lemma size_mem_less: "v \<in> set xs \<Longrightarrow> size v < Suc (size_list size xs)"
  using size_nth_less by (metis in_set_conv_nth)

lemma py_getitem_size:
  assumes "py_getitem x k = Inr v" and "py_iter x = Inr ks" and "k \<in> set ks"
  shows "size v < size x"
proof (cases x)
  case (PStr s)
  with assms show ?thesis
    by (auto simp: py_getitem_def py_iter_def as_index_def)
next
  case (PList xs)
  with assms obtain i where "py_index xs i = Some v"
    by (auto simp: py_getitem_def split: option.splits)
  from size_mem_less [OF py_index_mem [OF this]] PList show ?thesis by simp
next
  case (PDict d)
  with assms obtain kk where "map_of d kk = Some v"
    by (auto simp: py_getitem_def split: sum.splits option.splits)
  from size_map_of_less [OF this] PDict show ?thesis by simp
qed (use assms in \<open>simp_all add: py_getitem_def\<close>)

lemma max_item_map:
  assumes "\<And>k v. k \<in> set ks \<Longrightarrow> f k = Inr v \<Longrightarrow> size v < n"
  shows "max_item (map (\<lambda>k. (k, f k)) ks) < Suc n"
  using assms
proof (induction ks)
  case Nil
  then show ?case by simp
next
  case (Cons k ks)
  have IH: "max_item (map (\<lambda>k. (k, f k)) ks) < Suc n"
    by (rule Cons.IH) (rule Cons.prems, simp_all)
  show ?case
  proof (cases "f k")
    case (Inl e)
    with IH show ?thesis by simp
  next
    case (Inr v)
    with Cons.prems [of k v] have "size v < n" by simp
    with IH Inr show ?thesis by simp
  qed
qed

lemma max_item_py_items:
  assumes "py_items x = Inr its"
  shows "max_item its < Suc (size x)"
proof -
  from assms obtain ks where ks: "py_iter x = Inr ks"
    and its: "its = map (\<lambda>k. (k, py_getitem x k)) ks"
    by (auto simp: py_items_def split: sum.splits)
  show ?thesis unfolding its
    by (rule max_item_map) (rule py_getitem_size [OF _ ks])
qed

definition matchDicts_rel ::
  "((pyval \<times> pydict + (pyval \<times> (error + pyval)) list \<times> pydict) \<times>
    (pyval \<times> pydict + (pyval \<times> (error + pyval)) list \<times> pydict)) set" where
  "matchDicts_rel = inv_image (less_than <*lex*> less_than)
     (\<lambda>a. case a of Inl (d1, d2) \<Rightarrow> (Suc (size d1), 0)
                  | Inr (its, d2) \<Rightarrow> (max_item its, Suc (length its)))"

lemma wf_matchDicts_rel: "wf matchDicts_rel"
  unfolding matchDicts_rel_def by (intro wf_inv_image wf_lex_prod wf_less_than)

lemma matchDicts_rel_enter:
  "py_items dict1 = Inr its \<Longrightarrow> (Inr (its, dict2), Inl (dict1, dict2)) \<in> matchDicts_rel"
  using max_item_py_items [of dict1 its] by (simp add: matchDicts_rel_def)

lemma matchDicts_rel_next:
  "(Inr (its, dict2'), Inr ((key, item) # its, dict2)) \<in> matchDicts_rel"
  by (cases item) (auto simp: matchDicts_rel_def max_def)

lemma matchDicts_rel_sub:
  "(Inl (v, sub), Inr ((key, Inr v) # its, dict2)) \<in> matchDicts_rel"
  by (auto simp: matchDicts_rel_def max_def)

termination matchDicts
  by (relation matchDicts_rel)
     (simp_all add: wf_matchDicts_rel matchDicts_rel_enter matchDicts_rel_next
        matchDicts_rel_sub)

section \<open>Node\<close>

text \<open>
  A \<^verbatim>\<open>Node\<close> object has identity: the model's list of disabled nodes is searched with
  \<^verbatim>\<open>in\<close>, which compares objects. Nodes therefore live in a store and refer to each other
  by their position in it. The \<^verbatim>\<open>siblings\<close> dictionary is keyed by option names, which are
  always results of \<^verbatim>\<open>str.split\<close>.
\<close>

record node =
  parent :: "nat option"
  children :: "nat list"
  data :: "pyval list"
  siblings :: "(string \<times> nat list) list"

definition numChildren :: "node \<Rightarrow> nat" where
  "numChildren nd = length (children nd)"

definition numColumns :: "node \<Rightarrow> nat" where
  "numColumns nd = length (data nd)"

text \<open>\<^verbatim>\<open>getChild\<close> guards only the upper end; below zero the list is indexed as Python does.\<close>

definition getChild :: "node \<Rightarrow> int \<Rightarrow> error + nat option" where
  "getChild nd i =
     (if i < int (numChildren nd)
      then (case py_index (children nd) i of None \<Rightarrow> Inl IndexError | Some c \<Rightarrow> Inr (Some c))
      else Inr None)"

text \<open>\<^verbatim>\<open>getData\<close> catches the \<^verbatim>\<open>IndexError\<close> and returns \<^verbatim>\<open>None\<close>.\<close>

definition getData :: "node \<Rightarrow> int \<Rightarrow> pyval" where
  "getData nd i = (case py_index (data nd) i of None \<Rightarrow> PNone | Some v \<Rightarrow> v)"

definition setData :: "node \<Rightarrow> int \<Rightarrow> pyval \<Rightarrow> bool \<times> node" where
  "setData nd column v =
     (if column < 0 \<or> column \<ge> int (numColumns nd) then (False, nd)
      else (True, nd\<lparr>data := (data nd)[nat column := v]\<rparr>))"

section \<open>The tree model\<close>

text \<open>
  \<^verbatim>\<open>TreeModel\<close> owns the root node, the list \<^verbatim>\<open>disabledNodes\<close> and the list
  \<^verbatim>\<open>typenodes\<close>. The store \<open>nodes\<close> holds every \<^verbatim>\<open>Node\<close> object created so far; a node
  is referred to by its position in the store.
\<close>

record tree_model =
  nodes :: "node list"
  root :: nat
  disabledNodes :: "nat list"
  typenodes :: "nat list"

text \<open>\<^verbatim>\<open>Node(data)\<close>: no parent, no children, no siblings.\<close>

definition Node :: "pyval list \<Rightarrow> node" where
  "Node d = \<lparr>parent = None, children = [], data = d, siblings = []\<rparr>"

definition new_node :: "pyval list \<Rightarrow> tree_model \<Rightarrow> nat \<times> tree_model" where
  "new_node d m = (length (nodes m), m\<lparr>nodes := nodes m @ [Node d]\<rparr>)"

text \<open>\<^verbatim>\<open>self.children.append(child); child.parent = self\<close>\<close>

definition appendChild :: "nat \<Rightarrow> nat \<Rightarrow> tree_model \<Rightarrow> tree_model" where
  "appendChild p c m =
     (let ns1 = (nodes m)[p := (nodes m ! p)\<lparr>children := children (nodes m ! p) @ [c]\<rparr>];
          ns2 = ns1[c := (ns1 ! c)\<lparr>parent := Some p\<rparr>]
      in m\<lparr>nodes := ns2\<rparr>)"

text \<open>
  \<^verbatim>\<open>treeFromNode(dictionary, root)\<close>: one child node per key; below it the subtree of a
  dictionary value, or one leaf for a list value (the fields of the leaf are the second
  element of the list if that is a list, else that element alone); a value that is neither
  gets no leaf. A key \<^verbatim>\<open>'type'\<close> with a list value is recorded in \<^verbatim>\<open>typenodes\<close>.
\<close>

fun treeFromNode :: "pydict \<Rightarrow> nat \<Rightarrow> tree_model \<Rightarrow> error + tree_model" where
  "treeFromNode [] rt m = Inr m"
| "treeFromNode ((key, v) # rest) rt m =
     (let (child, m1) = new_node [of_key key] m;
          m2 = appendChild rt child m1
      in case v of
           PDict d \<Rightarrow>
             (case treeFromNode d child m2 of
                Inl e \<Rightarrow> Inl e
              | Inr m3 \<Rightarrow> treeFromNode rest rt m3)
         | PList entry \<Rightarrow>
             (case py_index entry 1 of
                None \<Rightarrow> Inl IndexError
              | Some x \<Rightarrow>
                 (let (leaf, m3) = new_node (case x of PList opts \<Rightarrow> opts | _ \<Rightarrow> [x]) m2;
                      m4 = appendChild child leaf m3;
                      m5 = (if key = KStr ''type''
                            then m4\<lparr>typenodes := typenodes m4 @ [child]\<rparr> else m4)
                  in treeFromNode rest rt m5))
         | _ \<Rightarrow> treeFromNode rest rt m2)"

text \<open>
  The first loop of \<^verbatim>\<open>dictToTree\<close> for a type node: the dictionary from the first field
  of each child of the parent to that child.
\<close>

fun sibsdict_of ::
  "tree_model \<Rightarrow> nat list \<Rightarrow> (pykey \<times> nat) list \<Rightarrow> error + (pykey \<times> nat) list" where
  "sibsdict_of m [] sibsdict = Inr sibsdict"
| "sibsdict_of m (c # cs) sibsdict =
     (case to_key (getData (nodes m ! c) 0) of
        Inl e \<Rightarrow> Inl e
      | Inr k \<Rightarrow> sibsdict_of m cs (AList.update k c sibsdict))"

text \<open>
  The second loop, over the columns of the leaf: the field is split, replaced by the
  option name, and the option's parameters that name a sibling are collected under the
  option name.
\<close>

fun link_columns :: "(pykey \<times> nat) list \<Rightarrow> nat list \<Rightarrow> node \<Rightarrow> error + node" where
  "link_columns sibsdict [] typesleaf = Inr typesleaf"
| "link_columns sibsdict (i # is) typesleaf =
     (case getData typesleaf (int i) of
        PStr s \<Rightarrow>
          (let sibstrings = py_split s SEP;
               leaf1 = snd (setData typesleaf (int i) (PStr (hd sibstrings)));
               sibslist = List.map_filter (\<lambda>p. map_of sibsdict (KStr p)) (tl sibstrings)
           in link_columns sibsdict is
                (leaf1\<lparr>siblings := AList.update (hd sibstrings) sibslist (siblings leaf1)\<rparr>))
      | _ \<Rightarrow> Inl AttributeError)"

text \<open>\<^verbatim>\<open>node.siblings[key]\<close>\<close>

definition sib_lookup :: "node \<Rightarrow> pyval \<Rightarrow> error + nat list" where
  "sib_lookup nd key =
     (case key of
        PStr s \<Rightarrow> (case map_of (siblings nd) s of None \<Rightarrow> Inl KeyError | Some l \<Rightarrow> Inr l)
      | PList _ \<Rightarrow> Inl TypeError
      | PDict _ \<Rightarrow> Inl TypeError
      | _ \<Rightarrow> Inl KeyError)"

text \<open>
  The third loop, over the columns from 1 on: the siblings of each such option are
  appended to \<^verbatim>\<open>disabledNodes\<close>.
\<close>

fun disable_rest :: "node \<Rightarrow> nat list \<Rightarrow> nat list \<Rightarrow> error + nat list" where
  "disable_rest typesleaf [] disabled = Inr disabled"
| "disable_rest typesleaf (i # is) disabled =
     (case sib_lookup typesleaf (getData typesleaf (int i)) of
        Inl e \<Rightarrow> Inl e
      | Inr nds \<Rightarrow> disable_rest typesleaf is (disabled @ nds))"

text \<open>The body of \<^verbatim>\<open>for node in self.typenodes\<close>.\<close>

definition link_typenode :: "nat \<Rightarrow> tree_model \<Rightarrow> error + tree_model" where
  "link_typenode n m =
     (case parent (nodes m ! n) of
        None \<Rightarrow> Inl AttributeError
      | Some p \<Rightarrow>
         (case sibsdict_of m (children (nodes m ! p)) [] of
            Inl e \<Rightarrow> Inl e
          | Inr sibsdict \<Rightarrow>
             (case getChild (nodes m ! n) 0 of
                Inl e \<Rightarrow> Inl e
              | Inr None \<Rightarrow> Inl AttributeError
              | Inr (Some l) \<Rightarrow>
                 (case link_columns sibsdict [0..<numColumns (nodes m ! l)] (nodes m ! l) of
                    Inl e \<Rightarrow> Inl e
                  | Inr typesleaf \<Rightarrow>
                     (case disable_rest typesleaf [1..<numColumns typesleaf] (disabledNodes m) of
                        Inl e \<Rightarrow> Inl e
                      | Inr disabled \<Rightarrow>
                          Inr (m\<lparr>nodes := (nodes m)[l := typesleaf],
                                  disabledNodes := disabled\<rparr>))))))"

fun link_typenodes :: "nat list \<Rightarrow> tree_model \<Rightarrow> error + tree_model" where
  "link_typenodes [] m = Inr m"
| "link_typenodes (n # ns) m =
     (case link_typenode n m of Inl e \<Rightarrow> Inl e | Inr m' \<Rightarrow> link_typenodes ns m')"

definition dictToTree :: "pydict \<Rightarrow> nat \<Rightarrow> tree_model \<Rightarrow> error + tree_model" where
  "dictToTree dictionary rt m =
     (case treeFromNode dictionary rt m of
        Inl e \<Rightarrow> Inl e
      | Inr m1 \<Rightarrow> link_typenodes (typenodes m1) m1)"

text \<open>\<^verbatim>\<open>TreeModel(dictionary)\<close>\<close>

definition TreeModel :: "pydict \<Rightarrow> error + tree_model" where
  "TreeModel dictionary =
     dictToTree dictionary 0
       \<lparr>nodes = [Node [PStr ''column A'']], root = 0, disabledNodes = [], typenodes = []\<rparr>"

text \<open>
  \<^verbatim>\<open>ConfigEditor.__init__\<close> merges the user's configuration into the template and then
  builds the tree from the merged template; an exception of the merge leaves no tree.
\<close>

definition ConfigEditor :: "pyval \<Rightarrow> pydict \<Rightarrow> error + tree_model" where
  "ConfigEditor configDict templatedictionary =
     (case matchDicts configDict templatedictionary of
        Inl e \<Rightarrow> Inl e
      | Inr merged \<Rightarrow> TreeModel merged)"

text \<open>
  \<^verbatim>\<open>dictFromNode(node)\<close>. The store of the model could hold a cycle, on which the
  recursion would not end, so the function takes the depth it may descend; \<open>None\<close> is
  running out of it. A node without children falls through both branches and the Python
  function returns \<^verbatim>\<open>None\<close>.
\<close>

fun dictFromNode :: "nat \<Rightarrow> tree_model \<Rightarrow> nat \<Rightarrow> (error + pyval) option"
  and dict_children ::
    "nat \<Rightarrow> tree_model \<Rightarrow> nat list \<Rightarrow> pydict \<Rightarrow> (error + pyval) option"
where
  "dictFromNode 0 m n = None"
| "dictFromNode (Suc fuel) m n =
     (let cs = children (nodes m ! n)
      in if length cs > 1 then dict_children fuel m cs []
         else if length cs = 1 then Some (Inr (getData (nodes m ! hd cs) 0))
         else Some (Inr PNone))"
| "dict_children fuel m [] dictionary = Some (Inr (PDict dictionary))"
| "dict_children fuel m (nd # nds) dictionary =
     (if nd \<in> set (disabledNodes m) then dict_children fuel m nds dictionary
      else (case dictFromNode fuel m nd of
              None \<Rightarrow> None
            | Some (Inl e) \<Rightarrow> Some (Inl e)
            | Some (Inr v) \<Rightarrow>
               (case to_key (getData (nodes m ! nd) 0) of
                  Inl e \<Rightarrow> Some (Inl e)
                | Inr k \<Rightarrow> dict_children fuel m nds (AList.update k v dictionary))))"

section \<open>Changing the selection of a type node\<close>

text \<open>
  \<^verbatim>\<open>TreeDelegate.setModelData\<close> takes the branch for a type node when the node has more
  than one field and the first field of its parent is \<^verbatim>\<open>'type'\<close>.
\<close>

definition is_type_choice :: "tree_model \<Rightarrow> nat \<Rightarrow> bool" where
  "is_type_choice m n =
     (numColumns (nodes m ! n) > 1 \<and>
      (case parent (nodes m ! n) of
         None \<Rightarrow> False
       | Some p \<Rightarrow> getData (nodes m ! p) 0 = PStr ''type''))"

text \<open>
  \<^verbatim>\<open>for nd in itemsToEnable: if nd in model.disabledNodes: model.disabledNodes.remove(nd)\<close>;
  \<^verbatim>\<open>list.remove\<close> takes out the first occurrence.
\<close>

fun enable_nodes :: "nat list \<Rightarrow> nat list \<Rightarrow> nat list" where
  "enable_nodes [] disabled = disabled"
| "enable_nodes (nd # nds) disabled =
     enable_nodes nds (if nd \<in> set disabled then remove1 nd disabled else disabled)"

text \<open>
  The branch of \<^verbatim>\<open>setModelData\<close> for a type node. The editor is the combo box that
  \<^verbatim>\<open>createEditor\<close> filled with the node's fields; \<open>selectedIndex\<close> is its
  \<^verbatim>\<open>currentIndex()\<close> and \<open>currentText\<close> its \<^verbatim>\<open>currentText()\<close>. The keys of
  \<^verbatim>\<open>siblings\<close> are strings, so a first field that is not a string is not among them.
\<close>

definition setModelData :: "int \<Rightarrow> string \<Rightarrow> tree_model \<Rightarrow> nat \<Rightarrow> error + tree_model" where
  "setModelData selectedIndex currentText m n =
     (let node = nodes m ! n; firstItem = getData node 0
      in case firstItem of
           PStr first \<Rightarrow>
             (let node1 = snd (setData node 0 (PStr currentText));
                  node2 = snd (setData node1 selectedIndex (PStr first))
              in case sib_lookup node2 firstItem of
                   Inl e \<Rightarrow> Inl e
                 | Inr itemsToDisable \<Rightarrow>
                    (case sib_lookup node2 (PStr currentText) of
                       Inl e \<Rightarrow> Inl e
                     | Inr itemsToEnable \<Rightarrow>
                         Inr (m\<lparr>nodes := (nodes m)[n := node2],
                                 disabledNodes :=
                                   enable_nodes itemsToEnable
                                     (disabledNodes m @ itemsToDisable)\<rparr>)))
         | _ \<Rightarrow> (case sib_lookup node firstItem of Inl e \<Rightarrow> Inl e | Inr _ \<Rightarrow> Inl KeyError))"

section \<open>Navigation past the end\<close>

text \<open>
  C8. Asking a node for the child at a row at or beyond its number of children gives
  \<^verbatim>\<open>None\<close> without an error; asking for the field at a column at or beyond its number of
  fields gives \<^verbatim>\<open>None\<close>; writing a field at a negative column or at one at or beyond the
  number of fields returns false and leaves the node as it was; writing at a column in
  range overwrites exactly that field and returns true.
\<close>

theorem out_of_range_navigation:
  "(int (length (children nd)) \<le> i \<longrightarrow> getChild nd i = Inr None)
   \<and> (int (length (data nd)) \<le> i \<longrightarrow> getData nd i = PNone)
   \<and> (c < 0 \<or> int (length (data nd)) \<le> c \<longrightarrow> setData nd c v = (False, nd))
   \<and> (0 \<le> c \<and> c < int (length (data nd)) \<longrightarrow>
        setData nd c v = (True, nd\<lparr>data := (data nd)[nat c := v]\<rparr>)
        \<and> data (snd (setData nd c v)) ! nat c = v
        \<and> length (data (snd (setData nd c v))) = length (data nd))"
  by (auto simp: getChild_def getData_def setData_def numChildren_def numColumns_def
        py_index_def)

theorem out_of_range_navigation_witness:
  "getChild \<lparr>parent = None, children = [1, 2], data = [PStr ''k'', PInt 3], siblings = []\<rparr> 2
     = Inr None
   \<and> getData \<lparr>parent = None, children = [1, 2], data = [PStr ''k'', PInt 3], siblings = []\<rparr> 2
     = PNone
   \<and> setData \<lparr>parent = None, children = [1, 2], data = [PStr ''k'', PInt 3], siblings = []\<rparr>
        (- 1) PNone
     = (False, \<lparr>parent = None, children = [1, 2], data = [PStr ''k'', PInt 3], siblings = []\<rparr>)
   \<and> setData \<lparr>parent = None, children = [1, 2], data = [PStr ''k'', PInt 3], siblings = []\<rparr>
        1 PNone
     = (True, \<lparr>parent = None, children = [1, 2], data = [PStr ''k'', PNone], siblings = []\<rparr>)"
  using out_of_range_navigation
    [of "\<lparr>parent = None, children = [1, 2], data = [PStr ''k'', PInt 3], siblings = []\<rparr>"
        2 "- 1" PNone]
    out_of_range_navigation
    [of "\<lparr>parent = None, children = [1, 2], data = [PStr ''k'', PInt 3], siblings = []\<rparr>"
        2 1 PNone]
  by simp

end
